theory Spec2Isabelle
  imports Main "HOL-Library.Word"
begin

section \<open>Data model of baseapp/runtime/module.go\<close>

text \<open>
  Go pointers are references into one heap of objects. A reference is the position of
  the object in the heap; allocation appends, so every allocated pointer is fresh.
  A reference that does not point to an object of the expected kind plays the role of
  a nil pointer: dereferencing it panics.
\<close>

type_synonym ref = nat

text \<open>
  The errors of the file are built with \<open>fmt.Errorf\<close>; each format string is one
  constructor, carrying the name that \<open>%q\<close> prints:
  \<^item> \<open>DuplicateModuleError n\<close>: "module named %q already exists";
  \<^item> \<open>NotCreatedError\<close>: "app not created yet, can't finish";
  \<^item> \<open>UnknownModuleError n\<close>: "can't find module named %q registered as a begin blocker";
  \<^item> \<open>ExternalError msg\<close>: an error value produced by a collaborator (the engine, the
    snapshot store, the database, the pruning-option parser).
\<close>

datatype error =
    DuplicateModuleError string
  | NotCreatedError
  | UnknownModuleError string
  | ExternalError string

datatype panicval = PanicError error | NilDereference

text \<open>A call either returns a value or panics; both carry the state reached.\<close>

datatype ('a, 's) outcome = Returns 'a 's | Panics panicval 's

text \<open>
  \<open>module.AppModule\<close> is an interface; the file only calls \<open>Name()\<close>. The field
  \<open>impl\<close> identifies the implementing value, so that two modules of one name can differ.
\<close>

record AppModule =
  Name :: string
  impl :: nat

datatype AppModuleWiringWrapper = AppModuleWiringWrapper AppModule

text \<open>\<open>runtimev1.Module\<close>: the fields of the configuration record the file reads.\<close>

record Module =
  AppName :: string
  BeginBlockers :: "string list"

text \<open>Opaque handles of the collaborators.\<close>

datatype logger = Logger nat
datatype db = DB nat
datatype writer = Writer nat
datatype backend = Backend string
datatype pruningOptions = PruningOptions string
datatype snapshotStore = SnapshotStore db string
datatype cacheManager = CommitKVStoreCacheManager

record SnapshotOptions =
  Interval :: "64 word"
  KeepRecent :: "32 word"

text \<open>
  Modelled from the spec: \<open>baseapp.BaseApp\<close> lives in package baseapp, outside the file.
  The engine is the record of the configuration Create derives for it (pruning policy,
  minimum gas price, halt height and time, retained-block count, inter-block cache,
  tracing flag, indexed events, snapshot store with its options), the trace sink, the
  version and the interface registry it is bound to.
\<close>

record BaseApp =
  appName :: string
  appLogger :: logger
  appDB :: db
  pruning :: "pruningOptions option"
  minGasPrices :: string
  haltHeight :: "64 word"
  haltTime :: "64 word"
  minRetainBlocks :: "64 word"
  interBlockCache :: "cacheManager option"
  trace :: bool
  indexEvents :: "string list"
  snapshot :: "(snapshotStore \<times> SnapshotOptions) option"
  commitMultiStoreTracer :: "writer option"
  appVersion :: string
  boundInterfaceRegistry :: "ref option"

datatype storeKind = KVStoreKey | TransientStoreKey | MemoryStoreKey

record appBuilder =
  storeKeys :: "ref list"
  interfaceRegistry :: ref
  cdc :: ref
  amino :: ref

record outputs =
  InterfaceRegistry :: ref
  Codec :: ref
  LegacyAmino :: ref
  Builder :: ref

text \<open>
  The objects of the heap: an interface registry, a proto codec (holding the registry it
  was constructed over), a legacy amino codec, a store key (kind and name), the builder,
  and the application (\<open>App{BaseApp: bApp}\<close>).
\<close>

datatype obj =
    InterfaceRegistryObj
  | ProtoCodecObj ref
  | LegacyAminoObj
  | StoreKeyObj storeKind string
  | AppBuilderObj appBuilder
  | AppObj BaseApp

type_synonym heap = "obj list"

definition alloc :: "heap \<Rightarrow> obj \<Rightarrow> ref \<times> heap" where
  "alloc h x = (length h, h @ [x])"

definition deref :: "heap \<Rightarrow> ref \<Rightarrow> obj option" where
  "deref h r = (if r < length h then Some (h ! r) else None)"

text \<open>
  \<open>AppCreator\<close>: \<open>builder\<close> is a pointer, \<open>modules\<close> the registry map handed over by the
  container, \<open>app\<close> a pointer that is nil until Create, \<open>config\<close> the configuration record.
\<close>

record AppCreator =
  builder :: ref
  modules :: "string \<rightharpoonup> AppModuleWiringWrapper"
  app :: "ref option"
  config :: Module

section \<open>The builder and the scoped store-key factories\<close>

text \<open>
  Modelled from the spec: \<open>codectypes.NewInterfaceRegistry\<close>, \<open>codec.NewProtoCodec\<close> and
  \<open>codec.NewLegacyAmino\<close> are outside the file. Each returns a pointer to a new object;
  the proto codec holds the registry it is constructed over.
\<close>

definition NewInterfaceRegistry :: "heap \<Rightarrow> ref \<times> heap" where
  "NewInterfaceRegistry h = alloc h InterfaceRegistryObj"

definition NewProtoCodec :: "ref \<Rightarrow> heap \<Rightarrow> ref \<times> heap" where
  "NewProtoCodec registry h = alloc h (ProtoCodecObj registry)"

definition NewLegacyAmino :: "heap \<Rightarrow> ref \<times> heap" where
  "NewLegacyAmino h = alloc h LegacyAminoObj"

definition provideBuilder :: "heap \<Rightarrow> (outputs \<times> error option) \<times> heap" where
  "provideBuilder h =
     (let (interfaceRegistry, h1) = NewInterfaceRegistry h;
          (cdc, h2) = NewProtoCodec interfaceRegistry h1;
          (amino, h3) = NewLegacyAmino h2;
          (builder, h4) = alloc h3 (AppBuilderObj
             \<lparr>storeKeys = [], interfaceRegistry = interfaceRegistry, cdc = cdc, amino = amino\<rparr>)
      in ((\<lparr>InterfaceRegistry = interfaceRegistry, Codec = cdc, LegacyAmino = amino,
             Builder = builder\<rparr>, None), h4))"

text \<open>\<open>registerStoreKey\<close> appends to the builder the pointer receiver points to.\<close>

definition registerStoreKey :: "ref \<Rightarrow> ref \<Rightarrow> heap \<Rightarrow> (unit, heap) outcome" where
  "registerStoreKey a key h =
     (case deref h a of
        Some (AppBuilderObj b) \<Rightarrow>
          Returns () (h[a := AppBuilderObj (b\<lparr>storeKeys := storeKeys b @ [key]\<rparr>)])
      | _ \<Rightarrow> Panics NilDereference h)"

datatype ModuleKey = ModuleKey (moduleName: string)

text \<open>
  Modelled from the spec: \<open>storetypes.NewKVStoreKey\<close>, \<open>NewTransientStoreKey\<close> and
  \<open>NewMemoryStoreKey\<close> are outside the file. Each returns a pointer to a new key of its
  kind whose name is the identifier it is given.
\<close>

definition NewStoreKey :: "storeKind \<Rightarrow> string \<Rightarrow> heap \<Rightarrow> ref \<times> heap" where
  "NewStoreKey kind name h = alloc h (StoreKeyObj kind name)"

definition provideKVStoreKey :: "ModuleKey \<Rightarrow> ref \<Rightarrow> heap \<Rightarrow> (ref, heap) outcome" where
  "provideKVStoreKey key builder' h =
     (let (storeKey, h1) = NewStoreKey KVStoreKey (moduleName key) h
      in case registerStoreKey builder' storeKey h1 of
           Returns _ h2 \<Rightarrow> Returns storeKey h2
         | Panics p h2 \<Rightarrow> Panics p h2)"

definition provideTransientStoreKey :: "ModuleKey \<Rightarrow> ref \<Rightarrow> heap \<Rightarrow> (ref, heap) outcome" where
  "provideTransientStoreKey key builder' h =
     (let (storeKey, h1) = NewStoreKey TransientStoreKey (moduleName key) h
      in case registerStoreKey builder' storeKey h1 of
           Returns _ h2 \<Rightarrow> Returns storeKey h2
         | Panics p h2 \<Rightarrow> Panics p h2)"

definition provideMemoryStoreKey :: "ModuleKey \<Rightarrow> ref \<Rightarrow> heap \<Rightarrow> (ref, heap) outcome" where
  "provideMemoryStoreKey key builder' h =
     (let (storeKey, h1) = NewStoreKey MemoryStoreKey (moduleName key) h
      in case registerStoreKey builder' storeKey h1 of
           Returns _ h2 \<Rightarrow> Returns storeKey h2
         | Panics p h2 \<Rightarrow> Panics p h2)"

text \<open>
  A request to one of the three factories, and an assembly run that serves a sequence of
  requests against one builder, stopping at the first panic. The run returns the store
  keys handed out, in request order.
\<close>

datatype request = RequestKV ModuleKey | RequestTransient ModuleKey | RequestMemory ModuleKey

fun serve :: "request \<Rightarrow> ref \<Rightarrow> heap \<Rightarrow> (ref, heap) outcome" where
  "serve (RequestKV key) b h = provideKVStoreKey key b h"
| "serve (RequestTransient key) b h = provideTransientStoreKey key b h"
| "serve (RequestMemory key) b h = provideMemoryStoreKey key b h"

fun serveAll :: "request list \<Rightarrow> ref \<Rightarrow> heap \<Rightarrow> (ref list, heap) outcome" where
  "serveAll [] b h = Returns [] h"
| "serveAll (q # qs) b h =
     (case serve q b h of
        Panics p h1 \<Rightarrow> Panics p h1
      | Returns k h1 \<Rightarrow>
          (case serveAll qs b h1 of
             Panics p h2 \<Rightarrow> Panics p h2
           | Returns ks h2 \<Rightarrow> Returns (k # ks) h2))"

section \<open>The application creator\<close>

definition provideApp :: "Module \<Rightarrow> ref \<Rightarrow> (string \<rightharpoonup> AppModuleWiringWrapper) \<Rightarrow> AppCreator" where
  "provideApp config' builder' modules' =
     \<lparr>builder = builder', modules = modules', app = None, config = config'\<rparr>"

text \<open>
  \<open>RegisterModules\<close>: the loop over the arguments. It writes into the map as it goes and
  returns at the first name that is already a key.
\<close>

fun RegisterModules :: "AppModule list \<Rightarrow> AppCreator \<Rightarrow> error option \<times> AppCreator" where
  "RegisterModules [] a = (None, a)"
| "RegisterModules (appModule # rest) a =
     (case modules a (Name appModule) of
        Some _ \<Rightarrow> (Some (DuplicateModuleError (Name appModule)), a)
      | None \<Rightarrow>
          RegisterModules rest
            (a\<lparr>modules := (modules a)(Name appModule \<mapsto> AppModuleWiringWrapper appModule)\<rparr>))"

text \<open>
  The keys Create reads from the options source (\<open>server.Flag...\<close>, \<open>flags.FlagHome\<close>);
  the options source \<open>appOpts\<close> is its \<open>Get\<close>: a function from keys to untyped values.
\<close>

datatype flag =
    FlagInterBlockCache
  | FlagUnsafeSkipUpgrades
  | FlagHome
  | FlagStateSyncSnapshotInterval
  | FlagStateSyncSnapshotKeepRecent
  | FlagMinGasPrices
  | FlagHaltHeight
  | FlagHaltTime
  | FlagMinRetainBlocks
  | FlagTrace
  | FlagIndexEvents

text \<open>
  What the file calls outside itself and cannot be read here is a parameter: the
  coercions of package cast, \<open>server.GetPruningOptionsFromFlags\<close>, \<open>server.GetAppDBBackend\<close>,
  \<open>dbm.NewDB\<close>, \<open>snapshots.NewStore\<close>, \<open>filepath.Join\<close>, \<open>version.Version\<close>, and the
  engine's \<open>LoadLatestVersion\<close>, which acts on the application a pointer refers to and
  may change the heap.
\<close>

record 'v externals =
  ToBool :: "'v \<Rightarrow> bool"
  ToIntSlice :: "'v \<Rightarrow> int list"
  ToString :: "'v \<Rightarrow> string"
  ToUint64 :: "'v \<Rightarrow> 64 word"
  ToUint32 :: "'v \<Rightarrow> 32 word"
  ToStringSlice :: "'v \<Rightarrow> string list"
  GetPruningOptionsFromFlags :: "(flag \<Rightarrow> 'v) \<Rightarrow> error + pruningOptions"
  GetAppDBBackend :: "(flag \<Rightarrow> 'v) \<Rightarrow> backend"
  NewDB :: "string \<Rightarrow> backend \<Rightarrow> string \<Rightarrow> error + db"
  NewStore :: "db \<Rightarrow> string \<Rightarrow> error + snapshotStore"
  Join :: "string list \<Rightarrow> string"
  Version :: string
  LoadLatestVersion :: "ref \<Rightarrow> heap \<Rightarrow> error option \<times> heap"

text \<open>
  Modelled from the spec: the option setters of package baseapp and \<open>baseapp.NewBaseApp\<close>
  are outside the file. Each setter stores its argument in the engine's configuration;
  \<open>NewBaseApp\<close> starts from the defaults and applies the options in order. What a
  setter does to validate its argument is outside the file and not modelled.
\<close>

definition SetPruning :: "pruningOptions \<Rightarrow> BaseApp \<Rightarrow> BaseApp" where
  "SetPruning opts bapp = bapp\<lparr>pruning := Some opts\<rparr>"

definition SetMinGasPrices :: "string \<Rightarrow> BaseApp \<Rightarrow> BaseApp" where
  "SetMinGasPrices gasPrices bapp = bapp\<lparr>minGasPrices := gasPrices\<rparr>"

definition SetHaltHeight :: "64 word \<Rightarrow> BaseApp \<Rightarrow> BaseApp" where
  "SetHaltHeight blockHeight bapp = bapp\<lparr>haltHeight := blockHeight\<rparr>"

definition SetHaltTime :: "64 word \<Rightarrow> BaseApp \<Rightarrow> BaseApp" where
  "SetHaltTime t bapp = bapp\<lparr>haltTime := t\<rparr>"

definition SetMinRetainBlocks :: "64 word \<Rightarrow> BaseApp \<Rightarrow> BaseApp" where
  "SetMinRetainBlocks n bapp = bapp\<lparr>minRetainBlocks := n\<rparr>"

definition SetInterBlockCache :: "cacheManager option \<Rightarrow> BaseApp \<Rightarrow> BaseApp" where
  "SetInterBlockCache cache bapp = bapp\<lparr>interBlockCache := cache\<rparr>"

definition SetTrace :: "bool \<Rightarrow> BaseApp \<Rightarrow> BaseApp" where
  "SetTrace t bapp = bapp\<lparr>trace := t\<rparr>"

definition SetIndexEvents :: "string list \<Rightarrow> BaseApp \<Rightarrow> BaseApp" where
  "SetIndexEvents ie bapp = bapp\<lparr>indexEvents := ie\<rparr>"

definition SetSnapshot :: "snapshotStore \<Rightarrow> SnapshotOptions \<Rightarrow> BaseApp \<Rightarrow> BaseApp" where
  "SetSnapshot st opts bapp = bapp\<lparr>snapshot := Some (st, opts)\<rparr>"

definition SetCommitMultiStoreTracer :: "writer \<Rightarrow> BaseApp \<Rightarrow> BaseApp" where
  "SetCommitMultiStoreTracer w bapp = bapp\<lparr>commitMultiStoreTracer := Some w\<rparr>"

definition SetVersion :: "string \<Rightarrow> BaseApp \<Rightarrow> BaseApp" where
  "SetVersion v bapp = bapp\<lparr>appVersion := v\<rparr>"

definition SetInterfaceRegistry :: "ref \<Rightarrow> BaseApp \<Rightarrow> BaseApp" where
  "SetInterfaceRegistry registry bapp = bapp\<lparr>boundInterfaceRegistry := Some registry\<rparr>"

definition NewSnapshotOptions :: "64 word \<Rightarrow> 32 word \<Rightarrow> SnapshotOptions" where
  "NewSnapshotOptions interval keepRecent = \<lparr>Interval = interval, KeepRecent = keepRecent\<rparr>"

definition NewBaseApp ::
  "string \<Rightarrow> logger \<Rightarrow> db \<Rightarrow> (BaseApp \<Rightarrow> BaseApp) list \<Rightarrow> BaseApp" where
  "NewBaseApp name lg d options =
     foldl (\<lambda>bapp option. option bapp)
       \<lparr>appName = name, appLogger = lg, appDB = d, pruning = None, minGasPrices = [],
        haltHeight = 0, haltTime = 0, minRetainBlocks = 0, interBlockCache = None,
        trace = False, indexEvents = [], snapshot = None, commitMultiStoreTracer = None,
        appVersion = [], boundInterfaceRegistry = None\<rparr>
       options"

text \<open>The map of upgrade heights to skip that Create fills from the options.\<close>

definition skipUpgradeHeightsOf :: "int list \<Rightarrow> (64 word \<rightharpoonup> bool)" where
  "skipUpgradeHeightsOf hs = foldl (\<lambda>m h. m(word_of_int h \<mapsto> True)) Map.empty hs"

text \<open>
  \<open>Create\<close>. The three fallible steps panic with the error they got. The builder's
  interface registry is read through the pointer \<open>a.builder\<close>. On success the new
  application is allocated, stored in \<open>a.app\<close> and returned. Nothing in the function
  looks at the previous value of \<open>a.app\<close>.
\<close>

definition Create ::
  "'v externals \<Rightarrow> logger \<Rightarrow> db \<Rightarrow> writer \<Rightarrow> (flag \<Rightarrow> 'v) \<Rightarrow> (BaseApp \<Rightarrow> BaseApp) list \<Rightarrow>
   AppCreator \<times> heap \<Rightarrow> (ref, AppCreator \<times> heap) outcome" where
  "Create ext lg d traceStore appOpts baseAppOptions s =
     (let a = fst s; h = snd s;
          cache = (if ToBool ext (appOpts FlagInterBlockCache)
                   then Some CommitKVStoreCacheManager else None);
          skipUpgradeHeights = skipUpgradeHeightsOf (ToIntSlice ext (appOpts FlagUnsafeSkipUpgrades))
      in case GetPruningOptionsFromFlags ext appOpts of
           Inl err \<Rightarrow> Panics (PanicError err) (a, h)
         | Inr pruningOpts \<Rightarrow>
            (let snapshotDir = Join ext [ToString ext (appOpts FlagHome), ''data'', ''snapshots'']
             in case NewDB ext ''metadata'' (GetAppDBBackend ext appOpts) snapshotDir of
                  Inl err \<Rightarrow> Panics (PanicError err) (a, h)
                | Inr snapshotDB \<Rightarrow>
                   (case NewStore ext snapshotDB snapshotDir of
                      Inl err \<Rightarrow> Panics (PanicError err) (a, h)
                    | Inr snapshotStore \<Rightarrow>
                       (let snapshotOptions = NewSnapshotOptions
                              (ToUint64 ext (appOpts FlagStateSyncSnapshotInterval))
                              (ToUint32 ext (appOpts FlagStateSyncSnapshotKeepRecent));
                            allOptions = baseAppOptions @
                              [SetPruning pruningOpts,
                               SetMinGasPrices (ToString ext (appOpts FlagMinGasPrices)),
                               SetHaltHeight (ToUint64 ext (appOpts FlagHaltHeight)),
                               SetHaltTime (ToUint64 ext (appOpts FlagHaltTime)),
                               SetMinRetainBlocks (ToUint64 ext (appOpts FlagMinRetainBlocks)),
                               SetInterBlockCache cache,
                               SetTrace (ToBool ext (appOpts FlagTrace)),
                               SetIndexEvents (ToStringSlice ext (appOpts FlagIndexEvents)),
                               SetSnapshot snapshotStore snapshotOptions];
                            bApp = NewBaseApp (AppName (config a)) lg d allOptions;
                            bApp1 = SetCommitMultiStoreTracer traceStore bApp;
                            bApp2 = SetVersion (Version ext) bApp1
                        in case deref h (builder a) of
                             Some (AppBuilderObj b) \<Rightarrow>
                               (let bApp3 = SetInterfaceRegistry (interfaceRegistry b) bApp2;
                                    (r, h1) = alloc h (AppObj bApp3)
                                in Returns r (a\<lparr>app := Some r\<rparr>, h1))
                           | _ \<Rightarrow> Panics NilDereference (a, h)))))"

text \<open>The loop of \<open>Finish\<close> over the begin blockers: the first name missing from the
  registry ends it with an error.\<close>

fun checkBeginBlockers ::
  "(string \<rightharpoonup> AppModuleWiringWrapper) \<Rightarrow> string list \<Rightarrow> error option" where
  "checkBeginBlockers ms [] = None"
| "checkBeginBlockers ms (blocker # rest) =
     (case ms blocker of
        None \<Rightarrow> Some (UnknownModuleError blocker)
      | Some _ \<Rightarrow> checkBeginBlockers ms rest)"

text \<open>\<open>Finish\<close>. No branch assigns to a field of the creator.\<close>

definition Finish ::
  "'v externals \<Rightarrow> bool \<Rightarrow> AppCreator \<times> heap \<Rightarrow> error option \<times> AppCreator \<times> heap" where
  "Finish ext loadLatest s =
     (let a = fst s; h = snd s
      in case app a of
           None \<Rightarrow> (Some NotCreatedError, a, h)
         | Some r \<Rightarrow>
            (case checkBeginBlockers (modules a) (BeginBlockers (config a)) of
               Some err \<Rightarrow> (Some err, a, h)
             | None \<Rightarrow>
                if loadLatest
                then (case LoadLatestVersion ext r h of
                        (Some err, h1) \<Rightarrow> (Some err, a, h1)
                      | (None, h1) \<Rightarrow> (None, a, h1))
                else (None, a, h)))"

section \<open>Notions used to state the properties\<close>


text \<open>
  The store key a request asks for, the value a call returned (if it returned), the state
  a call ended in, and the snapshot directory Create derives from the options.
\<close>

fun requestedObj :: "request \<Rightarrow> obj" where
  "requestedObj (RequestKV key) = StoreKeyObj KVStoreKey (moduleName key)"
| "requestedObj (RequestTransient key) = StoreKeyObj TransientStoreKey (moduleName key)"
| "requestedObj (RequestMemory key) = StoreKeyObj MemoryStoreKey (moduleName key)"

definition returned :: "('a, 's) outcome \<Rightarrow> 'a option" where
  "returned x = (case x of Returns v s \<Rightarrow> Some v | Panics p s \<Rightarrow> None)"

definition stateOf :: "('a, 's) outcome \<Rightarrow> 's" where
  "stateOf x = (case x of Returns v s \<Rightarrow> s | Panics p s \<Rightarrow> s)"

definition snapshotDirOf :: "'v externals \<Rightarrow> (flag \<Rightarrow> 'v) \<Rightarrow> string" where
  "snapshotDirOf ext appOpts = Join ext [ToString ext (appOpts FlagHome), ''data'', ''snapshots'']"

section \<open>A concrete assembly run\<close>

text \<open>
  Collaborators that succeed, the options \<open>{pruning: default, minGasPrices: 0stake,
  haltHeight: 0}\<close>, the modules bank and auth with the begin blockers auth, bank: the
  builder is provided on the empty heap, the creator is provided for it, the two modules are
  registered, and Create is run.
\<close>

fun examplePathJoin :: "string list \<Rightarrow> string" where
  "examplePathJoin [] = []"
| "examplePathJoin [x] = x"
| "examplePathJoin (x # y # ys) = x @ ''/'' @ examplePathJoin (y # ys)"

definition exampleExternals :: "string externals" where
  "exampleExternals =
     \<lparr>ToBool = (\<lambda>v. v = ''true''),
      ToIntSlice = (\<lambda>v. []),
      ToString = (\<lambda>v. v),
      ToUint64 = (\<lambda>v. 0),
      ToUint32 = (\<lambda>v. 0),
      ToStringSlice = (\<lambda>v. []),
      GetPruningOptionsFromFlags = (\<lambda>opts. Inr (PruningOptions ''default'')),
      GetAppDBBackend = (\<lambda>opts. Backend ''goleveldb''),
      NewDB = (\<lambda>name b dir. Inr (DB 7)),
      NewStore = (\<lambda>d dir. Inr (SnapshotStore d dir)),
      Join = examplePathJoin,
      Version = ''v0.46'',
      LoadLatestVersion = (\<lambda>r h. (None, h))\<rparr>"

definition exampleOpts :: "flag \<Rightarrow> string" where
  "exampleOpts f =
     (case f of FlagMinGasPrices \<Rightarrow> ''0stake'' | FlagHome \<Rightarrow> ''/home/app'' | _ \<Rightarrow> [])"

definition bank :: AppModule where
  "bank = \<lparr>Name = ''bank'', impl = 0\<rparr>"

definition auth :: AppModule where
  "auth = \<lparr>Name = ''auth'', impl = 1\<rparr>"

definition bank2 :: AppModule where
  "bank2 = \<lparr>Name = ''bank'', impl = 2\<rparr>"

definition staking :: AppModule where
  "staking = \<lparr>Name = ''staking'', impl = 3\<rparr>"

definition gov :: AppModule where
  "gov = \<lparr>Name = ''gov'', impl = 4\<rparr>"

definition mint :: AppModule where
  "mint = \<lparr>Name = ''mint'', impl = 5\<rparr>"

definition exampleConfig :: Module where
  "exampleConfig = \<lparr>AppName = ''app'', BeginBlockers = [''auth'', ''bank'']\<rparr>"

definition exampleHeap :: heap where
  "exampleHeap = snd (provideBuilder [])"


definition exampleCreator :: AppCreator where
  "exampleCreator =
     snd (RegisterModules [bank, auth]
       (provideApp exampleConfig (Builder (fst (fst (provideBuilder [])))) Map.empty))"

definition exampleCreated :: "AppCreator \<times> heap" where
  "exampleCreated =
     stateOf (Create exampleExternals (Logger 0) (DB 1) (Writer 2) exampleOpts []
               (exampleCreator, exampleHeap))"

text \<open>
  Variants: begin blockers that name the unregistered module staking, an engine whose
  load of the latest state fails, and a snapshot store that cannot be opened.
\<close>

definition stakingCreator :: AppCreator where
  "stakingCreator =
     (fst exampleCreated)\<lparr>config := \<lparr>AppName = ''app'', BeginBlockers = [''auth'', ''staking'']\<rparr>\<rparr>"

definition failingLoadExternals :: "string externals" where
  "failingLoadExternals =
     exampleExternals\<lparr>LoadLatestVersion := (\<lambda>r h. (Some (ExternalError ''load failed''), h))\<rparr>"

definition failingStoreExternals :: "string externals" where
  "failingStoreExternals =
     exampleExternals\<lparr>NewStore := (\<lambda>d dir. Inl (ExternalError ''cannot create snapshot directory''))\<rparr>"

text \<open>
  The same collaborators with an in-memory snapshot database backend, which can be opened
  any number of times, and the state after Create has run once with them.
\<close>

definition memdbExternals :: "string externals" where
  "memdbExternals = exampleExternals\<lparr>GetAppDBBackend := (\<lambda>opts. Backend ''memdb'')\<rparr>"

definition memdbCreated :: "AppCreator \<times> heap" where
  "memdbCreated =
     stateOf (Create memdbExternals (Logger 0) (DB 1) (Writer 2) exampleOpts []
               (exampleCreator, exampleHeap))"

section \<open>The module registry\<close>


lemma RegisterModules_fields:
  "builder (snd (RegisterModules ms a)) = builder a \<and>
   app (snd (RegisterModules ms a)) = app a \<and>
   config (snd (RegisterModules ms a)) = config a"
  by (induction ms arbitrary: a) (auto split: option.splits)




lemma RegisterModules_prefix:
  "distinct (map Name pre) \<Longrightarrow> \<forall>p \<in> set pre. modules a (Name p) = None \<Longrightarrow>
   RegisterModules (pre @ rest) a =
     RegisterModules rest
       (a\<lparr>modules := foldl (\<lambda>r p. r(Name p \<mapsto> AppModuleWiringWrapper p)) (modules a) pre\<rparr>)"
proof (induction pre arbitrary: a)
  case Nil
  then show ?case by simp
next
  case (Cons x xs)
  let ?a = "a\<lparr>modules := (modules a)(Name x \<mapsto> AppModuleWiringWrapper x)\<rparr>"
  from Cons.prems have d: "distinct (map Name xs)" by simp
  from Cons.prems have "\<forall>p \<in> set xs. Name p \<noteq> Name x" by (metis distinct.simps(2) imageI list.simps(9) list.set_map)
  with Cons.prems have f: "\<forall>p \<in> set xs. modules ?a (Name p) = None" by simp
  from Cons.prems have "modules a (Name x) = None" by simp
  then show ?case using Cons.IH [OF d f] by simp
qed

lemma foldl_insert_lookup:
  "distinct (map Name pre) \<Longrightarrow>
   foldl (\<lambda>r p. r(Name p \<mapsto> AppModuleWiringWrapper p)) r0 pre n =
     (case find (\<lambda>p. Name p = n) pre of
        Some p \<Rightarrow> Some (AppModuleWiringWrapper p) | None \<Rightarrow> r0 n)"
proof (induction pre arbitrary: r0)
  case Nil
  then show ?case by simp
next
  case (Cons x xs)
  then have d: "distinct (map Name xs)" and nx: "Name x \<notin> Name ` set xs" by auto
  show ?case
  proof (cases "Name x = n")
    case True
    with nx have "find (\<lambda>p. Name p = n) xs = None" unfolding find_None_iff by blast
    with True Cons.IH [OF d] show ?thesis by simp
  next
    case False
    with Cons.IH [OF d] show ?thesis by simp
  qed
qed

lemma foldl_insert_dom:
  "dom (foldl (\<lambda>r p. r(Name p \<mapsto> AppModuleWiringWrapper p)) r0 pre) = dom r0 \<union> Name ` set pre"
  by (induction pre arbitrary: r0) auto

lemma find_distinct_name:
  "distinct (map Name pre) \<Longrightarrow> p \<in> set pre \<Longrightarrow> find (\<lambda>q. Name q = Name p) pre = Some p"
proof (induction pre)
  case Nil
  then show ?case by simp
next
  case (Cons x xs)
  show ?case
  proof (cases "p = x")
    case True
    then show ?thesis by simp
  next
    case False
    with Cons.prems have px: "p \<in> set xs" by simp
    with Cons.prems have "Name x \<noteq> Name p" by (metis distinct.simps(2) imageI list.simps(9) list.set_map)
    with Cons px show ?thesis by simp
  qed
qed

section \<open>The concrete run, evaluated\<close>

lemma exampleHeap_eq:
  "exampleHeap = [InterfaceRegistryObj, ProtoCodecObj 0, LegacyAminoObj,
     AppBuilderObj \<lparr>storeKeys = [], interfaceRegistry = 0, cdc = 1, amino = 2\<rparr>]"
  by (simp add: exampleHeap_def provideBuilder_def NewInterfaceRegistry_def NewProtoCodec_def
      NewLegacyAmino_def alloc_def)

lemma exampleCreator_eq:
  "exampleCreator =
     \<lparr>builder = 3,
      modules = [''bank'' \<mapsto> AppModuleWiringWrapper bank, ''auth'' \<mapsto> AppModuleWiringWrapper auth],
      app = None, config = exampleConfig\<rparr>"
  by (simp add: exampleCreator_def provideBuilder_def NewInterfaceRegistry_def NewProtoCodec_def
      NewLegacyAmino_def alloc_def provideApp_def bank_def auth_def)

lemma exampleCreate_eq:
  "\<exists>b. Create exampleExternals (Logger 0) (DB 1) (Writer 2) exampleOpts []
     (exampleCreator, exampleHeap) =
   Returns 4 (exampleCreator\<lparr>app := Some 4\<rparr>, exampleHeap @ [AppObj b])
   \<and> pruning b = Some (PruningOptions ''default'') \<and> haltHeight b = 0 \<and> minGasPrices b = ''0stake''
   \<and> boundInterfaceRegistry b = Some 0"
  by (simp add: Create_def exampleHeap_eq exampleCreator_eq exampleExternals_def deref_def
      alloc_def Let_def NewBaseApp_def SetPruning_def SetMinGasPrices_def SetHaltHeight_def
      SetHaltTime_def SetMinRetainBlocks_def SetInterBlockCache_def SetTrace_def
      SetIndexEvents_def SetSnapshot_def SetCommitMultiStoreTracer_def SetVersion_def
      SetInterfaceRegistry_def exampleOpts_def)

lemma exampleCreated_eq:
  "\<exists>b. exampleCreated = (exampleCreator\<lparr>app := Some 4\<rparr>, exampleHeap @ [AppObj b])"
  using exampleCreate_eq by (auto simp: exampleCreated_def stateOf_def)

lemma exampleCreated_fst: "fst exampleCreated = exampleCreator\<lparr>app := Some 4\<rparr>"
  using exampleCreated_eq by (metis fst_conv)

section \<open>Finish\<close>

lemma checkBeginBlockers_resolved:
  "\<forall>b \<in> set bs. ms b \<noteq> None \<Longrightarrow> checkBeginBlockers ms bs = None"
  by (induction bs) auto

lemma checkBeginBlockers_first_missing:
  "\<forall>p \<in> set pre. ms p \<noteq> None \<Longrightarrow> ms n = None \<Longrightarrow>
   checkBeginBlockers ms (pre @ n # post) = Some (UnknownModuleError n)"
  by (induction pre) auto

lemma first_missing_exists:
  assumes "b \<in> set bs" and "ms b = None"
  shows "\<exists>pre n post. bs = pre @ n # post \<and> (\<forall>p \<in> set pre. ms p \<noteq> None) \<and> ms n = None"
proof -
  from assms have "\<exists>x \<in> set bs. ms x = None" by blast
  from split_list_first_prop [OF this]
  obtain pre n post where "bs = pre @ n # post" "ms n = None" "\<forall>p \<in> set pre. ms p \<noteq> None"
    by blast
  then show ?thesis by blast
qed

section \<open>The heap: builder, factories, Create\<close>

lemma deref_builder:
  "deref h b = Some (AppBuilderObj bd) \<Longrightarrow> b < length h \<and> h ! b = AppBuilderObj bd"
  by (simp add: deref_def split: if_splits)

lemma serve_eq:
  assumes "deref h b = Some (AppBuilderObj bd)"
  shows "serve q b h =
           Returns (length h)
             (h[b := AppBuilderObj (bd\<lparr>storeKeys := storeKeys bd @ [length h]\<rparr>)] @ [requestedObj q])"
proof -
  from deref_builder [OF assms] have b: "b < length h" and hb: "h ! b = AppBuilderObj bd" by simp_all
  then have d: "deref (h @ [x]) b = Some (AppBuilderObj bd)" for x
    by (simp add: deref_def nth_append)
  show ?thesis
    by (cases q)
       (simp_all add: provideKVStoreKey_def provideTransientStoreKey_def provideMemoryStoreKey_def
          NewStoreKey_def alloc_def registerStoreKey_def d list_update_append1 b)
qed

lemma serveAll_eq:
  "deref h b = Some (AppBuilderObj bd) \<Longrightarrow>
   serveAll qs b h =
     Returns [length h ..< length h + length qs]
       (h[b := AppBuilderObj (bd\<lparr>storeKeys := storeKeys bd @ [length h ..< length h + length qs]\<rparr>)]
        @ map requestedObj qs)"
proof (induction qs arbitrary: h bd)
  case Nil
  from deref_builder [OF Nil] have "h[b := AppBuilderObj bd] = h" by (simp add: list_update_same_conv)
  then show ?case by simp
next
  case (Cons q qs)
  from deref_builder [OF Cons.prems] have b: "b < length h" by simp
  let ?bd1 = "bd\<lparr>storeKeys := storeKeys bd @ [length h]\<rparr>"
  let ?h1 = "h[b := AppBuilderObj ?bd1] @ [requestedObj q]"
  have s: "serve q b h = Returns (length h) ?h1" using Cons.prems by (rule serve_eq)
  have d1: "deref ?h1 b = Some (AppBuilderObj ?bd1)" using b by (simp add: deref_def nth_append)
  have l1: "length ?h1 = Suc (length h)" by simp
  have u: "[length h ..< length h + length (q # qs)] =
           length h # [Suc (length h) ..< Suc (length h) + length qs]"
    using upt_conv_Cons [of "length h" "length h + Suc (length qs)"] by (simp del: upt_Suc)
  have "serveAll (q # qs) b h =
          Returns (length h # [Suc (length h) ..< Suc (length h) + length qs])
            (?h1[b := AppBuilderObj (?bd1\<lparr>storeKeys := storeKeys ?bd1 @
                   [Suc (length h) ..< Suc (length h) + length qs]\<rparr>)] @ map requestedObj qs)"
    using Cons.IH [OF d1] by (simp add: s del: upt_Suc)
  also have "?h1[b := AppBuilderObj (?bd1\<lparr>storeKeys := storeKeys ?bd1 @
                   [Suc (length h) ..< Suc (length h) + length qs]\<rparr>)] @ map requestedObj qs
           = h[b := AppBuilderObj (bd\<lparr>storeKeys := storeKeys bd @
                   [length h ..< length h + length (q # qs)]\<rparr>)] @ map requestedObj (q # qs)"
    using b unfolding u by (simp add: list_update_append1 del: upt_Suc)
  finally show ?case unfolding u .
qed

lemma provideBuilder_eq:
  "provideBuilder h =
     ((\<lparr>InterfaceRegistry = length h, Codec = length h + 1, LegacyAmino = length h + 2,
        Builder = length h + 3\<rparr>, None),
      h @ [InterfaceRegistryObj, ProtoCodecObj (length h), LegacyAminoObj,
           AppBuilderObj \<lparr>storeKeys = [], interfaceRegistry = length h, cdc = length h + 1,
                          amino = length h + 2\<rparr>])"
  by (simp add: provideBuilder_def NewInterfaceRegistry_def NewProtoCodec_def
      NewLegacyAmino_def alloc_def)

lemma Create_succeeds:
  assumes "GetPruningOptionsFromFlags ext appOpts = Inr p"
    and "NewDB ext ''metadata'' (GetAppDBBackend ext appOpts) (snapshotDirOf ext appOpts) = Inr sdb"
    and "NewStore ext sdb (snapshotDirOf ext appOpts) = Inr st"
    and "deref h (builder a) = Some (AppBuilderObj b)"
  shows "\<exists>bapp. Create ext lg d traceStore appOpts baseAppOptions (a, h) =
           Returns (length h) (a\<lparr>app := Some (length h)\<rparr>, h @ [AppObj bapp]) \<and>
           boundInterfaceRegistry bapp = Some (interfaceRegistry b)"
  using assms
  by (simp add: Create_def snapshotDirOf_def Let_def alloc_def SetInterfaceRegistry_def)


lemma memdb_steps:
  "GetPruningOptionsFromFlags memdbExternals exampleOpts = Inr (PruningOptions ''default'')"
  "NewDB memdbExternals ''metadata'' (GetAppDBBackend memdbExternals exampleOpts)
     (snapshotDirOf memdbExternals exampleOpts) = Inr (DB 7)"
  "NewStore memdbExternals (DB 7) (snapshotDirOf memdbExternals exampleOpts) =
     Inr (SnapshotStore (DB 7) (snapshotDirOf memdbExternals exampleOpts))"
  by (simp_all add: memdbExternals_def exampleExternals_def)

lemma memdbCreate_first:
  "\<exists>b. Create memdbExternals (Logger 0) (DB 1) (Writer 2) exampleOpts []
          (exampleCreator, exampleHeap) =
        Returns 4 (exampleCreator\<lparr>app := Some 4\<rparr>, exampleHeap @ [AppObj b])"
proof -
  have d: "deref exampleHeap (builder exampleCreator) =
             Some (AppBuilderObj \<lparr>storeKeys = [], interfaceRegistry = 0, cdc = 1, amino = 2\<rparr>)"
    by (simp add: exampleHeap_eq exampleCreator_eq deref_def)
  from Create_succeeds [OF memdb_steps d, of "Logger 0" "DB 1" "Writer 2" "[]"]
  show ?thesis by (auto simp: exampleHeap_eq)
qed

lemma memdbCreated_eq:
  "\<exists>b. memdbCreated = (exampleCreator\<lparr>app := Some 4\<rparr>, exampleHeap @ [AppObj b])"
  using memdbCreate_first by (auto simp: memdbCreated_def stateOf_def)

lemma memdbCreate_second:
  "\<exists>b b2. memdbCreated = (exampleCreator\<lparr>app := Some 4\<rparr>, exampleHeap @ [AppObj b]) \<and>
     (\<forall>x. Create memdbExternals (Logger 0) (DB 1) (Writer 2) exampleOpts []
        (exampleCreator\<lparr>app := x\<rparr>, exampleHeap @ [AppObj b]) =
      Returns 5 (exampleCreator\<lparr>app := Some 5\<rparr>, exampleHeap @ [AppObj b, AppObj b2]))"
proof -
  obtain b where c: "memdbCreated = (exampleCreator\<lparr>app := Some 4\<rparr>, exampleHeap @ [AppObj b])"
    using memdbCreated_eq by blast
  have d: "deref (exampleHeap @ [AppObj b]) (builder (exampleCreator\<lparr>app := x\<rparr>)) =
             Some (AppBuilderObj \<lparr>storeKeys = [], interfaceRegistry = 0, cdc = 1, amino = 2\<rparr>)" for x
    by (simp add: exampleHeap_eq exampleCreator_eq deref_def)
  have "\<exists>b2. \<forall>x. Create memdbExternals (Logger 0) (DB 1) (Writer 2) exampleOpts []
        (exampleCreator\<lparr>app := x\<rparr>, exampleHeap @ [AppObj b]) =
      Returns 5 (exampleCreator\<lparr>app := Some 5\<rparr>, exampleHeap @ [AppObj b, AppObj b2])"
    using memdb_steps d
    by (simp add: Create_def snapshotDirOf_def Let_def alloc_def exampleHeap_eq exampleCreator_eq)
  with c show ?thesis by blast
qed

section \<open>The claims\<close>

text \<open>
  C1. Unknown begin blocker. Let the creator hold an engine handle and let its begin-blocker
  list contain a name \<open>b\<close> that is not a key of the module registry. Then Finish, for
  either value of \<open>loadLatest\<close>, returns \<open>UnknownModuleError n\<close>, where \<open>n\<close> is the first
  name of the list that is missing from the registry (so \<open>n\<close> is \<open>b\<close> when \<open>b\<close> is the only
  missing name), and the creator (handle, registry, builder, configuration) and the heap
  are returned unchanged.
\<close>

theorem Finish_unknown_module:
  assumes "app a = Some r" and "b \<in> set (BeginBlockers (config a))" and "modules a b = None"
  shows "\<exists>pre n post. BeginBlockers (config a) = pre @ n # post \<and>
           (\<forall>p \<in> set pre. modules a p \<noteq> None) \<and> modules a n = None \<and>
           ((\<forall>c \<in> set (BeginBlockers (config a)). modules a c = None \<longrightarrow> c = b) \<longrightarrow> n = b) \<and>
           Finish ext loadLatest (a, h) = (Some (UnknownModuleError n), a, h)"
proof -
  from first_missing_exists [of b "BeginBlockers (config a)" "modules a", OF assms(2,3)]
  obtain pre n post where s: "BeginBlockers (config a) = pre @ n # post"
    and p: "\<forall>p \<in> set pre. modules a p \<noteq> None" and n: "modules a n = None"
    by blast
  have "checkBeginBlockers (modules a) (BeginBlockers (config a)) = Some (UnknownModuleError n)"
    unfolding s using p n by (rule checkBeginBlockers_first_missing)
  then have f: "Finish ext loadLatest (a, h) = (Some (UnknownModuleError n), a, h)"
    using assms(1) by (simp add: Finish_def)
  have "n \<in> set (BeginBlockers (config a))" using s by simp
  then have "(\<forall>c \<in> set (BeginBlockers (config a)). modules a c = None \<longrightarrow> c = b) \<longrightarrow> n = b"
    using n by blast
  with s p n f show ?thesis by blast
qed

theorem Finish_unknown_module_witness:
  "app stakingCreator = Some 4 \<and> ''staking'' \<in> set (BeginBlockers (config stakingCreator)) \<and>
   modules stakingCreator ''staking'' = None \<and>
   Finish exampleExternals True (stakingCreator, snd exampleCreated) =
     (Some (UnknownModuleError ''staking''), stakingCreator, snd exampleCreated)"
proof -
  have a: "app stakingCreator = Some 4"
    by (simp add: stakingCreator_def exampleCreated_fst)
  have b: "''staking'' \<in> set (BeginBlockers (config stakingCreator))"
    by (simp add: stakingCreator_def)
  have m: "modules stakingCreator ''staking'' = None"
    by (simp add: stakingCreator_def exampleCreated_fst exampleCreator_eq)
  have u: "\<forall>c \<in> set (BeginBlockers (config stakingCreator)).
             modules stakingCreator c = None \<longrightarrow> c = ''staking''"
    by (simp add: stakingCreator_def exampleCreated_fst exampleCreator_eq)
  from Finish_unknown_module [OF a b m, of exampleExternals True "snd exampleCreated"] u
  have "Finish exampleExternals True (stakingCreator, snd exampleCreated) =
     (Some (UnknownModuleError ''staking''), stakingCreator, snd exampleCreated)"
    by blast
  with a b m show ?thesis by simp
qed



text \<open>
  C3. Finish before Create. When the creator holds no engine handle, Finish returns
  \<open>NotCreatedError\<close> for either value of \<open>loadLatest\<close> and returns the creator, with its
  module registry, and the heap unchanged.
\<close>

theorem Finish_before_Create:
  assumes "app a = None"
  shows "Finish ext loadLatest (a, h) = (Some NotCreatedError, a, h)"
  using assms by (simp add: Finish_def)

theorem Finish_before_Create_witness:
  "app exampleCreator = None \<and>
   Finish exampleExternals True (exampleCreator, exampleHeap) =
     (Some NotCreatedError, exampleCreator, exampleHeap)"
proof -
  have a: "app exampleCreator = None" by (simp add: exampleCreator_eq)
  from Finish_before_Create [OF a, of exampleExternals True exampleHeap] a
  show ?thesis by simp
qed

text \<open>
  C4, as stated, fails: Finish is not terminal. On the concrete run, Finish(false) succeeds
  after Create, and a second Finish(false) on the resulting state succeeds again.
\<close>

theorem Finish_twice_counterexample:
  "app (fst exampleCreated) = Some 4 \<and>
   fst (Finish exampleExternals False exampleCreated) = None \<and>
   fst (Finish exampleExternals False
          (snd (Finish exampleExternals False exampleCreated))) = None"
proof -
  obtain b where c: "exampleCreated = (exampleCreator\<lparr>app := Some 4\<rparr>, exampleHeap @ [AppObj b])"
    using exampleCreated_eq by blast
  show ?thesis unfolding c
    by (simp add: Finish_def exampleCreator_eq exampleConfig_def)
qed

text \<open>
  C4, amended. Finish keeps no record of having completed. If a Finish call succeeds, the
  creator it returns is the creator it was given; a following Finish(false) succeeds again
  and changes nothing; a following Finish(true) returns exactly what the engine's load of
  the latest state returns, so it is an error only if that load fails.
\<close>

theorem Finish_repeatable:
  assumes "Finish ext loadLatest (a, h) = (None, a1, h1)"
  shows "a1 = a \<and> Finish ext False (a1, h1) = (None, a, h1) \<and>
         (\<exists>r. app a = Some r \<and>
            (\<forall>e h2. LoadLatestVersion ext r h1 = (e, h2) \<longrightarrow> Finish ext True (a1, h1) = (e, a, h2)))"
  using assms by (auto simp: Finish_def split: option.splits if_splits prod.splits)

theorem Finish_repeatable_witness:
  "Finish exampleExternals False exampleCreated = (None, exampleCreated) \<and>
   Finish exampleExternals False (snd (Finish exampleExternals False exampleCreated)) =
     (None, exampleCreated)"
proof -
  have f: "Finish exampleExternals False (fst exampleCreated, snd exampleCreated) =
             (None, fst exampleCreated, snd exampleCreated)"
    by (simp add: Finish_def exampleCreated_fst exampleCreator_eq exampleConfig_def)
  from Finish_repeatable [OF f] f show ?thesis by simp
qed

text \<open>
  C5, as stated, fails: Create is not limited to one call. With an in-memory snapshot
  database, the first Create on the concrete creator returns handle 4 and stores it; a
  second Create on the resulting creator returns too, with the different handle 5, and
  the creator now holds 5.
\<close>

theorem Create_twice_counterexample:
  "returned (Create memdbExternals (Logger 0) (DB 1) (Writer 2) exampleOpts []
      (exampleCreator, exampleHeap)) = Some 4 \<and>
   app (fst memdbCreated) = Some 4 \<and>
   returned (Create memdbExternals (Logger 0) (DB 1) (Writer 2) exampleOpts [] memdbCreated) = Some 5 \<and>
   app (fst (stateOf (Create memdbExternals (Logger 0) (DB 1) (Writer 2) exampleOpts []
      memdbCreated))) = Some 5"
proof -
  obtain b b2 where c: "memdbCreated = (exampleCreator\<lparr>app := Some 4\<rparr>, exampleHeap @ [AppObj b])"
    and c2: "\<forall>x. Create memdbExternals (Logger 0) (DB 1) (Writer 2) exampleOpts []
        (exampleCreator\<lparr>app := x\<rparr>, exampleHeap @ [AppObj b]) =
      Returns 5 (exampleCreator\<lparr>app := Some 5\<rparr>, exampleHeap @ [AppObj b, AppObj b2])"
    using memdbCreate_second by blast
  obtain b1 where c1: "Create memdbExternals (Logger 0) (DB 1) (Writer 2) exampleOpts []
     (exampleCreator, exampleHeap) = Returns 4 (exampleCreator\<lparr>app := Some 4\<rparr>, exampleHeap @ [AppObj b1])"
    using memdbCreate_first by blast
  show ?thesis unfolding c c2 [rule_format] c1 by (simp add: returned_def stateOf_def)
qed

text \<open>
  C5, amended. Create has no guard on the creator's handle. Whenever a Create call
  returns, it has allocated one new application, it returns the handle of that
  application and has stored it in the creator; the handle is fresh (it pointed to
  nothing before the call), so a creator that already held a handle into the heap holds a
  different one afterwards; and the call returns the same way whatever handle the creator
  held before it, none included.
\<close>

theorem Create_replaces_handle:
  assumes "Create ext lg d traceStore appOpts baseAppOptions (a, h) = Returns r s"
  shows "r = length h \<and> deref h r = None \<and>
         (\<exists>bapp. s = (a\<lparr>app := Some r\<rparr>, h @ [AppObj bapp])) \<and>
         app (fst s) = Some r \<and>
         (\<forall>r0. app a = Some r0 \<longrightarrow> r0 < length h \<longrightarrow> app (fst s) \<noteq> Some r0) \<and>
         (\<forall>x. Create ext lg d traceStore appOpts baseAppOptions (a\<lparr>app := x\<rparr>, h) = Returns r s)"
proof -
  from assms obtain bapp where r: "r = length h"
    and s: "s = (a\<lparr>app := Some r\<rparr>, h @ [AppObj bapp])"
    by (auto simp: Create_def Let_def alloc_def split: sum.splits option.splits obj.splits)
  have g: "Create ext lg d traceStore appOpts baseAppOptions (a\<lparr>app := x\<rparr>, h) = Returns r s" for x
    using assms
    by (auto simp: Create_def Let_def alloc_def split: sum.splits option.splits obj.splits)
  from r s g show ?thesis by (auto simp: deref_def)
qed

theorem Create_replaces_handle_witness:
  "Create memdbExternals (Logger 0) (DB 1) (Writer 2) exampleOpts []
     (fst memdbCreated, snd memdbCreated) =
     Returns 5 (stateOf (Create memdbExternals (Logger 0) (DB 1) (Writer 2) exampleOpts []
                  (fst memdbCreated, snd memdbCreated))) \<and>
   app (fst memdbCreated) = Some 4 \<and>
   length (snd memdbCreated) = 5 \<and>
   app (fst (stateOf (Create memdbExternals (Logger 0) (DB 1) (Writer 2) exampleOpts []
                  (fst memdbCreated, snd memdbCreated)))) = Some 5 \<and>
   returned (Create memdbExternals (Logger 0) (DB 1) (Writer 2) exampleOpts []
     ((fst memdbCreated)\<lparr>app := None\<rparr>, snd memdbCreated)) = Some 5"
proof -
  obtain b b2 where c: "memdbCreated = (exampleCreator\<lparr>app := Some 4\<rparr>, exampleHeap @ [AppObj b])"
    and c2: "\<forall>x. Create memdbExternals (Logger 0) (DB 1) (Writer 2) exampleOpts []
        (exampleCreator\<lparr>app := x\<rparr>, exampleHeap @ [AppObj b]) =
      Returns 5 (exampleCreator\<lparr>app := Some 5\<rparr>, exampleHeap @ [AppObj b, AppObj b2])"
    using memdbCreate_second by blast
  have run: "Create memdbExternals (Logger 0) (DB 1) (Writer 2) exampleOpts []
     (fst memdbCreated, snd memdbCreated) =
     Returns 5 (stateOf (Create memdbExternals (Logger 0) (DB 1) (Writer 2) exampleOpts []
                  (fst memdbCreated, snd memdbCreated)))"
    unfolding c using c2 [rule_format, of "Some 4"] by (simp add: stateOf_def)
  have a4: "app (fst memdbCreated) = Some 4" and l: "length (snd memdbCreated) = 5"
    unfolding c by (simp_all add: exampleHeap_eq)
  note t = Create_replaces_handle [OF run]
  from t have A: "app (fst (stateOf (Create memdbExternals (Logger 0) (DB 1) (Writer 2) exampleOpts []
                  (fst memdbCreated, snd memdbCreated)))) = Some 5"
    by blast
  from t have "Create memdbExternals (Logger 0) (DB 1) (Writer 2) exampleOpts []
     ((fst memdbCreated)\<lparr>app := None\<rparr>, snd memdbCreated) =
     Returns 5 (stateOf (Create memdbExternals (Logger 0) (DB 1) (Writer 2) exampleOpts []
                  (fst memdbCreated, snd memdbCreated)))"
    by blast
  then have B: "returned (Create memdbExternals (Logger 0) (DB 1) (Writer 2) exampleOpts []
     ((fst memdbCreated)\<lparr>app := None\<rparr>, snd memdbCreated)) = Some 5"
    unfolding returned_def by simp
  from run a4 l A B show ?thesis by blast
qed

text \<open>
  C6. Store keys are counted per request. Let \<open>b\<close> point to a builder. Serving any
  sequence of requests to the three factories (any kinds, any identifiers, repeated or
  not) returns one key per request; the keys are pairwise distinct pointers that were not
  allocated before; the builder's store-key list afterwards is the old list followed by
  exactly these keys, so its length grows by the number of requests, and for a builder
  that started empty it equals the number of requests.
\<close>

theorem store_keys_counted:
  assumes "deref h b = Some (AppBuilderObj bd)"
  shows "\<exists>ks h' bd'. serveAll qs b h = Returns ks h' \<and>
           deref h' b = Some (AppBuilderObj bd') \<and>
           storeKeys bd' = storeKeys bd @ ks \<and>
           length ks = length qs \<and> distinct ks \<and> (\<forall>k \<in> set ks. deref h k = None) \<and>
           length (storeKeys bd') = length (storeKeys bd) + length qs \<and>
           (storeKeys bd = [] \<longrightarrow> length (storeKeys bd') = length qs)"
proof -
  from deref_builder [OF assms] have b: "b < length h" by simp
  let ?ks = "[length h ..< length h + length qs]"
  let ?bd = "bd\<lparr>storeKeys := storeKeys bd @ ?ks\<rparr>"
  let ?h = "h[b := AppBuilderObj ?bd] @ map requestedObj qs"
  have "serveAll qs b h = Returns ?ks ?h" using assms by (rule serveAll_eq)
  moreover have "deref ?h b = Some (AppBuilderObj ?bd)" using b by (simp add: deref_def nth_append)
  moreover have "\<forall>k \<in> set ?ks. deref h k = None" by (simp add: deref_def)
  ultimately show ?thesis by (intro exI [of _ ?ks] exI [of _ ?h] exI [of _ ?bd]) simp
qed

theorem store_keys_counted_witness:
  "deref exampleHeap 3 =
     Some (AppBuilderObj \<lparr>storeKeys = [], interfaceRegistry = 0, cdc = 1, amino = 2\<rparr>) \<and>
   (\<exists>ks h' bd'.
      serveAll [RequestKV (ModuleKey ''bank''), RequestKV (ModuleKey ''bank'')] 3 exampleHeap =
        Returns ks h' \<and>
      deref h' 3 = Some (AppBuilderObj bd') \<and> storeKeys bd' = ks \<and>
      length (storeKeys bd') = 2 \<and> distinct (storeKeys bd'))"
proof -
  have d: "deref exampleHeap 3 =
     Some (AppBuilderObj \<lparr>storeKeys = [], interfaceRegistry = 0, cdc = 1, amino = 2\<rparr>)"
    by (simp add: exampleHeap_eq deref_def)
  from store_keys_counted [OF d, of "[RequestKV (ModuleKey ''bank''), RequestKV (ModuleKey ''bank'')]"] d
  show ?thesis by auto
qed

text \<open>
  C7. One interface registry, one codec, one legacy amino codec. \<open>provideBuilder\<close> returns
  no error and allocates exactly four objects: the registry, the proto codec constructed
  over that registry, the legacy amino codec and the builder. The handles it exports are
  the handles stored in the builder. After any sequence of factory requests the builder
  still holds the same three handles and they still point to the same objects; and a
  Create that succeeds on a creator of this builder binds the engine to that same
  interface registry.
\<close>

theorem shared_codec_instances:
  assumes "provideBuilder h = ((out, err), h1)"
  shows "err = None \<and>
     InterfaceRegistry out = length h \<and> Codec out = length h + 1 \<and>
     LegacyAmino out = length h + 2 \<and> Builder out = length h + 3 \<and>
     h1 = h @ [InterfaceRegistryObj, ProtoCodecObj (InterfaceRegistry out), LegacyAminoObj,
               AppBuilderObj \<lparr>storeKeys = [], interfaceRegistry = InterfaceRegistry out,
                              cdc = Codec out, amino = LegacyAmino out\<rparr>] \<and>
     (\<forall>qs. \<exists>ks h2 bd. serveAll qs (Builder out) h1 = Returns ks h2 \<and>
        deref h2 (Builder out) = Some (AppBuilderObj bd) \<and>
        interfaceRegistry bd = InterfaceRegistry out \<and> cdc bd = Codec out \<and>
        amino bd = LegacyAmino out \<and>
        deref h2 (InterfaceRegistry out) = Some InterfaceRegistryObj \<and>
        deref h2 (Codec out) = Some (ProtoCodecObj (InterfaceRegistry out)) \<and>
        deref h2 (LegacyAmino out) = Some LegacyAminoObj \<and>
        (\<forall>a p sdb st.
           builder a = Builder out \<and>
           GetPruningOptionsFromFlags ext appOpts = Inr p \<and>
           NewDB ext ''metadata'' (GetAppDBBackend ext appOpts) (snapshotDirOf ext appOpts) = Inr sdb \<and>
           NewStore ext sdb (snapshotDirOf ext appOpts) = Inr st \<longrightarrow>
           (\<exists>bapp. Create ext lg d traceStore appOpts baseAppOptions (a, h2) =
                      Returns (length h2) (a\<lparr>app := Some (length h2)\<rparr>, h2 @ [AppObj bapp]) \<and>
                    boundInterfaceRegistry bapp = Some (InterfaceRegistry out))))"
proof -
  let ?bd = "\<lparr>storeKeys = [], interfaceRegistry = length h, cdc = length h + 1,
             amino = length h + 2\<rparr>"
  let ?h1 = "h @ [InterfaceRegistryObj, ProtoCodecObj (length h), LegacyAminoObj, AppBuilderObj ?bd]"
  from assms have o: "out = \<lparr>InterfaceRegistry = length h, Codec = length h + 1,
      LegacyAmino = length h + 2, Builder = length h + 3\<rparr>"
    and e: "err = None" and h1: "h1 = ?h1"
    by (simp_all add: provideBuilder_eq)
  have d: "deref ?h1 (length h + 3) = Some (AppBuilderObj ?bd)"
    by (simp add: deref_def nth_append)
  have main: "\<exists>ks h2 bd. serveAll qs (length h + 3) ?h1 = Returns ks h2 \<and>
        deref h2 (length h + 3) = Some (AppBuilderObj bd) \<and>
        interfaceRegistry bd = length h \<and> cdc bd = length h + 1 \<and>
        amino bd = length h + 2 \<and>
        deref h2 (length h) = Some InterfaceRegistryObj \<and>
        deref h2 (length h + 1) = Some (ProtoCodecObj (length h)) \<and>
        deref h2 (length h + 2) = Some LegacyAminoObj \<and>
        (\<forall>a p sdb st.
           builder a = length h + 3 \<and>
           GetPruningOptionsFromFlags ext appOpts = Inr p \<and>
           NewDB ext ''metadata'' (GetAppDBBackend ext appOpts) (snapshotDirOf ext appOpts) = Inr sdb \<and>
           NewStore ext sdb (snapshotDirOf ext appOpts) = Inr st \<longrightarrow>
           (\<exists>bapp. Create ext lg d traceStore appOpts baseAppOptions (a, h2) =
                      Returns (length h2) (a\<lparr>app := Some (length h2)\<rparr>, h2 @ [AppObj bapp]) \<and>
                    boundInterfaceRegistry bapp = Some (length h)))" for qs
  proof -
    define ks where "ks = [length ?h1 ..< length ?h1 + length qs]"
    define bd2 where "bd2 = ?bd\<lparr>storeKeys := storeKeys ?bd @ ks\<rparr>"
    define h2 where "h2 = ?h1[length h + 3 := AppBuilderObj bd2] @ map requestedObj qs"
    have s: "serveAll qs (length h + 3) ?h1 = Returns ks h2"
      unfolding ks_def bd2_def h2_def using d by (rule serveAll_eq)
    have d2: "deref h2 (length h + 3) = Some (AppBuilderObj bd2)"
      by (simp add: h2_def deref_def nth_append)
    have f: "interfaceRegistry bd2 = length h" "cdc bd2 = length h + 1" "amino bd2 = length h + 2"
      by (simp_all add: bd2_def)
    have r: "deref h2 (length h) = Some InterfaceRegistryObj"
      "deref h2 (length h + 1) = Some (ProtoCodecObj (length h))"
      "deref h2 (length h + 2) = Some LegacyAminoObj"
      by (simp_all add: h2_def deref_def nth_append list_update_append)
    have c: "\<exists>bapp. Create ext lg d traceStore appOpts baseAppOptions (a, h2) =
                      Returns (length h2) (a\<lparr>app := Some (length h2)\<rparr>, h2 @ [AppObj bapp]) \<and>
                    boundInterfaceRegistry bapp = Some (length h)"
      if "builder a = length h + 3"
        and "GetPruningOptionsFromFlags ext appOpts = Inr p"
        and "NewDB ext ''metadata'' (GetAppDBBackend ext appOpts) (snapshotDirOf ext appOpts) = Inr sdb"
        and "NewStore ext sdb (snapshotDirOf ext appOpts) = Inr st" for a p sdb st
    proof -
      from d2 that(1) have "deref h2 (builder a) = Some (AppBuilderObj bd2)" by simp
      from Create_succeeds [OF that(2,3,4) this, of lg d traceStore baseAppOptions]
      show ?thesis by (simp add: f)
    qed
    from s d2 f r c show ?thesis by blast
  qed
  show ?thesis unfolding e h1 o using main by simp
qed

theorem shared_codec_instances_witness:
  "provideBuilder [] =
     ((\<lparr>InterfaceRegistry = 0, Codec = 1, LegacyAmino = 2, Builder = 3\<rparr>, None), exampleHeap) \<and>
   (\<exists>ks h2 bd.
      serveAll [RequestKV (ModuleKey ''bank''), RequestMemory (ModuleKey ''bank'')] 3 exampleHeap =
        Returns ks h2 \<and>
      deref h2 3 = Some (AppBuilderObj bd) \<and>
      interfaceRegistry bd = 0 \<and> cdc bd = 1 \<and> amino bd = 2 \<and>
      deref h2 0 = Some InterfaceRegistryObj \<and> deref h2 1 = Some (ProtoCodecObj 0) \<and>
      deref h2 2 = Some LegacyAminoObj \<and>
      (\<exists>bapp. Create exampleExternals (Logger 0) (DB 1) (Writer 2) exampleOpts []
                 (exampleCreator, h2) =
               Returns (length h2) (exampleCreator\<lparr>app := Some (length h2)\<rparr>, h2 @ [AppObj bapp]) \<and>
               boundInterfaceRegistry bapp = Some 0))"
proof -
  have pb: "provideBuilder [] =
     ((\<lparr>InterfaceRegistry = 0, Codec = 1, LegacyAmino = 2, Builder = 3\<rparr>, None), exampleHeap)"
    by (simp add: provideBuilder_eq exampleHeap_eq)
  have b: "builder exampleCreator = 3" by (simp add: exampleCreator_eq)
  have p: "GetPruningOptionsFromFlags exampleExternals exampleOpts = Inr (PruningOptions ''default'')"
    by (simp add: exampleExternals_def)
  have n: "NewDB exampleExternals ''metadata'' (GetAppDBBackend exampleExternals exampleOpts)
             (snapshotDirOf exampleExternals exampleOpts) = Inr (DB 7)"
    by (simp add: exampleExternals_def)
  have s: "NewStore exampleExternals (DB 7) (snapshotDirOf exampleExternals exampleOpts) =
             Inr (SnapshotStore (DB 7) (snapshotDirOf exampleExternals exampleOpts))"
    by (simp add: exampleExternals_def)
  from shared_codec_instances [OF pb, of exampleExternals exampleOpts "Logger 0" "DB 1" "Writer 2" "[]"]
  have "\<forall>qs. \<exists>ks h2 bd. serveAll qs 3 exampleHeap = Returns ks h2 \<and>
        deref h2 3 = Some (AppBuilderObj bd) \<and>
        interfaceRegistry bd = 0 \<and> cdc bd = 1 \<and> amino bd = 2 \<and>
        deref h2 0 = Some InterfaceRegistryObj \<and>
        deref h2 1 = Some (ProtoCodecObj 0) \<and>
        deref h2 2 = Some LegacyAminoObj \<and>
        (\<forall>a p sdb st.
           builder a = 3 \<and>
           GetPruningOptionsFromFlags exampleExternals exampleOpts = Inr p \<and>
           NewDB exampleExternals ''metadata'' (GetAppDBBackend exampleExternals exampleOpts)
             (snapshotDirOf exampleExternals exampleOpts) = Inr sdb \<and>
           NewStore exampleExternals sdb (snapshotDirOf exampleExternals exampleOpts) = Inr st \<longrightarrow>
           (\<exists>bapp. Create exampleExternals (Logger 0) (DB 1) (Writer 2) exampleOpts [] (a, h2) =
                      Returns (length h2) (a\<lparr>app := Some (length h2)\<rparr>, h2 @ [AppObj bapp]) \<and>
                    boundInterfaceRegistry bapp = Some 0))"
    by simp
  then obtain ks h2 bd where
    r: "serveAll [RequestKV (ModuleKey ''bank''), RequestMemory (ModuleKey ''bank'')] 3 exampleHeap =
          Returns ks h2"
       "deref h2 3 = Some (AppBuilderObj bd)"
       "interfaceRegistry bd = 0" "cdc bd = 1" "amino bd = 2"
       "deref h2 0 = Some InterfaceRegistryObj" "deref h2 1 = Some (ProtoCodecObj 0)"
       "deref h2 2 = Some LegacyAminoObj"
    and c: "\<forall>a p sdb st.
           builder a = 3 \<and>
           GetPruningOptionsFromFlags exampleExternals exampleOpts = Inr p \<and>
           NewDB exampleExternals ''metadata'' (GetAppDBBackend exampleExternals exampleOpts)
             (snapshotDirOf exampleExternals exampleOpts) = Inr sdb \<and>
           NewStore exampleExternals sdb (snapshotDirOf exampleExternals exampleOpts) = Inr st \<longrightarrow>
           (\<exists>bapp. Create exampleExternals (Logger 0) (DB 1) (Writer 2) exampleOpts [] (a, h2) =
                      Returns (length h2) (a\<lparr>app := Some (length h2)\<rparr>, h2 @ [AppObj bapp]) \<and>
                    boundInterfaceRegistry bapp = Some 0)"
    by blast
  from c b p n s have "\<exists>bapp. Create exampleExternals (Logger 0) (DB 1) (Writer 2) exampleOpts []
                 (exampleCreator, h2) =
               Returns (length h2) (exampleCreator\<lparr>app := Some (length h2)\<rparr>, h2 @ [AppObj bapp]) \<and>
               boundInterfaceRegistry bapp = Some 0"
    by blast
  with pb r show ?thesis by blast
qed

text \<open>
  C8. A failed load is returned as it is. Let the creator hold the engine handle \<open>r\<close>, let
  every begin blocker be registered, and let the engine's load of the latest state fail
  with \<open>err\<close>. Then Finish(true) returns exactly \<open>err\<close> and the creator unchanged; and if
  the load succeeds on a later attempt, Finish(true) on that same creator succeeds.
\<close>

theorem Finish_load_failure:
  assumes "app a = Some r"
    and "\<forall>b \<in> set (BeginBlockers (config a)). modules a b \<noteq> None"
    and "LoadLatestVersion ext r h = (Some err, h1)"
  shows "Finish ext True (a, h) = (Some err, a, h1) \<and>
         (\<forall>h2. LoadLatestVersion ext r h1 = (None, h2) \<longrightarrow> Finish ext True (a, h1) = (None, a, h2))"
  using assms by (simp add: Finish_def checkBeginBlockers_resolved)

theorem Finish_load_failure_witness:
  "app (fst exampleCreated) = Some 4 \<and>
   BeginBlockers (config (fst exampleCreated)) = [''auth'', ''bank''] \<and>
   modules (fst exampleCreated) ''auth'' \<noteq> None \<and>
   modules (fst exampleCreated) ''bank'' \<noteq> None \<and>
   LoadLatestVersion failingLoadExternals 4 (snd exampleCreated) =
     (Some (ExternalError ''load failed''), snd exampleCreated) \<and>
   Finish failingLoadExternals True exampleCreated =
     (Some (ExternalError ''load failed''), exampleCreated)"
proof -
  have a: "app (fst exampleCreated) = Some 4" by (simp add: exampleCreated_fst)
  have b: "\<forall>b \<in> set (BeginBlockers (config (fst exampleCreated))). modules (fst exampleCreated) b \<noteq> None"
    by (simp add: exampleCreated_fst exampleCreator_eq exampleConfig_def)
  have l: "LoadLatestVersion failingLoadExternals 4 (snd exampleCreated) =
     (Some (ExternalError ''load failed''), snd exampleCreated)"
    by (simp add: failingLoadExternals_def)
  have c: "BeginBlockers (config (fst exampleCreated)) = [''auth'', ''bank''] \<and>
           modules (fst exampleCreated) ''auth'' \<noteq> None \<and>
           modules (fst exampleCreated) ''bank'' \<noteq> None"
    by (simp add: exampleCreated_fst exampleCreator_eq exampleConfig_def)
  from Finish_load_failure [OF a b l] a c l show ?thesis by simp
qed

text \<open>
  C9. Construction failures are fatal. If the pruning options do not parse, or they parse
  and the snapshot database does not open, or both succeed and the snapshot store does
  not open, each with error \<open>err\<close>, then Create panics with \<open>err\<close>: it returns no handle, and
  the creator and the heap are as before the call (no handle stored, no application
  allocated).
\<close>

theorem Create_fatal:
  assumes "GetPruningOptionsFromFlags ext appOpts = Inl err \<or>
     (\<exists>p. GetPruningOptionsFromFlags ext appOpts = Inr p \<and>
        NewDB ext ''metadata'' (GetAppDBBackend ext appOpts) (snapshotDirOf ext appOpts) = Inl err) \<or>
     (\<exists>p sdb. GetPruningOptionsFromFlags ext appOpts = Inr p \<and>
        NewDB ext ''metadata'' (GetAppDBBackend ext appOpts) (snapshotDirOf ext appOpts) = Inr sdb \<and>
        NewStore ext sdb (snapshotDirOf ext appOpts) = Inl err)"
  shows "Create ext lg d traceStore appOpts baseAppOptions (a, h) = Panics (PanicError err) (a, h) \<and>
         returned (Create ext lg d traceStore appOpts baseAppOptions (a, h)) = None \<and>
         stateOf (Create ext lg d traceStore appOpts baseAppOptions (a, h)) = (a, h)"
  using assms
  by (auto simp: Create_def snapshotDirOf_def Let_def returned_def stateOf_def)

theorem Create_fatal_witness:
  "GetPruningOptionsFromFlags failingStoreExternals exampleOpts = Inr (PruningOptions ''default'') \<and>
   NewDB failingStoreExternals ''metadata'' (GetAppDBBackend failingStoreExternals exampleOpts)
     (snapshotDirOf failingStoreExternals exampleOpts) = Inr (DB 7) \<and>
   NewStore failingStoreExternals (DB 7) (snapshotDirOf failingStoreExternals exampleOpts) =
     Inl (ExternalError ''cannot create snapshot directory'') \<and>
   Create failingStoreExternals (Logger 0) (DB 1) (Writer 2) exampleOpts []
     (exampleCreator, exampleHeap) =
     Panics (PanicError (ExternalError ''cannot create snapshot directory''))
       (exampleCreator, exampleHeap)"
proof -
  have p: "GetPruningOptionsFromFlags failingStoreExternals exampleOpts =
             Inr (PruningOptions ''default'')"
    by (simp add: failingStoreExternals_def exampleExternals_def)
  have n: "NewDB failingStoreExternals ''metadata'' (GetAppDBBackend failingStoreExternals exampleOpts)
     (snapshotDirOf failingStoreExternals exampleOpts) = Inr (DB 7)"
    by (simp add: failingStoreExternals_def exampleExternals_def)
  have s: "NewStore failingStoreExternals (DB 7) (snapshotDirOf failingStoreExternals exampleOpts) =
     Inl (ExternalError ''cannot create snapshot directory'')"
    by (simp add: failingStoreExternals_def)
  from p n s have h: "GetPruningOptionsFromFlags failingStoreExternals exampleOpts =
       Inl (ExternalError ''cannot create snapshot directory'') \<or>
     (\<exists>p. GetPruningOptionsFromFlags failingStoreExternals exampleOpts = Inr p \<and>
        NewDB failingStoreExternals ''metadata'' (GetAppDBBackend failingStoreExternals exampleOpts)
          (snapshotDirOf failingStoreExternals exampleOpts) =
        Inl (ExternalError ''cannot create snapshot directory'')) \<or>
     (\<exists>p sdb. GetPruningOptionsFromFlags failingStoreExternals exampleOpts = Inr p \<and>
        NewDB failingStoreExternals ''metadata'' (GetAppDBBackend failingStoreExternals exampleOpts)
          (snapshotDirOf failingStoreExternals exampleOpts) = Inr sdb \<and>
        NewStore failingStoreExternals sdb (snapshotDirOf failingStoreExternals exampleOpts) =
        Inl (ExternalError ''cannot create snapshot directory''))"
    by blast
  from Create_fatal [OF h, of "Logger 0" "DB 1" "Writer 2" "[]" exampleCreator exampleHeap] p n s
  show ?thesis by simp
qed

text \<open>
  C10. RegisterModules is not atomic. Let the arguments be \<open>pre\<close>, then \<open>m\<close>, then \<open>post\<close>,
  where the modules of \<open>pre\<close> have pairwise different names that are not registered, and the
  name of \<open>m\<close> is registered already or is the name of a module of \<open>pre\<close>. Then the call
  returns the \<open>DuplicateModuleError\<close> naming \<open>m\<close>, every module of \<open>pre\<close> is in the registry
  afterwards, the registry's keys are the old keys and the names of \<open>pre\<close>, and every old
  entry is kept.
\<close>

theorem RegisterModules_not_atomic:
  assumes "distinct (map Name pre)"
    and "\<forall>p \<in> set pre. modules a (Name p) = None"
    and "modules a (Name m) \<noteq> None \<or> Name m \<in> Name ` set pre"
  shows "fst (RegisterModules (pre @ m # post) a) = Some (DuplicateModuleError (Name m)) \<and>
         (\<forall>p \<in> set pre. modules (snd (RegisterModules (pre @ m # post) a)) (Name p)
                          = Some (AppModuleWiringWrapper p)) \<and>
         dom (modules (snd (RegisterModules (pre @ m # post) a))) = dom (modules a) \<union> Name ` set pre \<and>
         (\<forall>n w. modules a n = Some w \<longrightarrow>
                modules (snd (RegisterModules (pre @ m # post) a)) n = Some w)"
proof -
  let ?r = "foldl (\<lambda>r p. r(Name p \<mapsto> AppModuleWiringWrapper p)) (modules a) pre"
  let ?a = "a\<lparr>modules := ?r\<rparr>"
  have step: "RegisterModules (pre @ m # post) a = RegisterModules (m # post) ?a"
    using assms(1,2) by (rule RegisterModules_prefix)
  have "Name m \<in> dom ?r" using assms(3) by (auto simp: foldl_insert_dom)
  then obtain v where v: "?r (Name m) = Some v" by auto
  then have res: "RegisterModules (pre @ m # post) a = (Some (DuplicateModuleError (Name m)), ?a)"
    by (simp add: step)
  have ins: "\<forall>p \<in> set pre. ?r (Name p) = Some (AppModuleWiringWrapper p)"
    using assms(1) by (simp add: foldl_insert_lookup find_distinct_name)
  have old: "\<forall>n w. modules a n = Some w \<longrightarrow> ?r n = Some w"
  proof (intro allI impI)
    fix n w assume nw: "modules a n = Some w"
    with assms(2) have "\<forall>p \<in> set pre. Name p \<noteq> n" by auto
    then have "find (\<lambda>p. Name p = n) pre = None" unfolding find_None_iff by blast
    with nw show "?r n = Some w" using assms(1) by (simp add: foldl_insert_lookup)
  qed
  show ?thesis using res ins old by (simp add: foldl_insert_dom)
qed

theorem RegisterModules_not_atomic_witness:
  "distinct (map Name [staking, gov]) \<and>
   modules exampleCreator (Name staking) = None \<and>
   modules exampleCreator (Name gov) = None \<and>
   modules exampleCreator (Name bank2) \<noteq> None \<and>
   fst (RegisterModules [staking, gov, bank2, mint] exampleCreator) =
     Some (DuplicateModuleError ''bank'') \<and>
   modules (snd (RegisterModules [staking, gov, bank2, mint] exampleCreator)) ''staking'' =
     Some (AppModuleWiringWrapper staking) \<and>
   modules (snd (RegisterModules [staking, gov, bank2, mint] exampleCreator)) ''gov'' =
     Some (AppModuleWiringWrapper gov) \<and>
   dom (modules (snd (RegisterModules [staking, gov, bank2, mint] exampleCreator))) =
     {''bank'', ''auth'', ''staking'', ''gov''}"
proof -
  have d: "distinct (map Name [staking, gov])" by (simp add: staking_def gov_def)
  have f: "\<forall>p \<in> set [staking, gov]. modules exampleCreator (Name p) = None"
    by (simp add: staking_def gov_def exampleCreator_eq)
  have r: "modules exampleCreator (Name bank2) \<noteq> None"
    by (simp add: bank2_def exampleCreator_eq)
  then have r': "modules exampleCreator (Name bank2) \<noteq> None \<or> Name bank2 \<in> Name ` set [staking, gov]"
    by simp
  have dm: "dom (modules exampleCreator) = {''bank'', ''auth''}"
    by (auto simp: exampleCreator_eq)
  from f have g: "modules exampleCreator (Name staking) = None"
    "modules exampleCreator (Name gov) = None" by simp_all
  from RegisterModules_not_atomic [OF d f r', of "[mint]"] d g r
  show ?thesis by (auto simp: dm staking_def gov_def bank2_def)
qed

end
